theory Spec2Isabelle
  imports Main "HOL-Library.Monad_Syntax"
begin

section \<open>JavaScript values as the dashboard sees them\<close>

text \<open>
  The dashboard controller (\<^verbatim>\<open>static/js/dashboard.js\<close>) exchanges JSON documents with
  the backend. A parsed document is a value of \<open>json\<close>; an object keeps its properties in
  enumeration order, each name once. The numbers of JavaScript are IEEE doubles; the
  controller never computes with them, it only prints and tests them, so the number type
  is left open (\<open>'n\<close>) and the printing functions of the runtime are collected in a
  \<open>platform\<close> record. \<open>None\<close> of type \<open>jsval\<close> is \<^verbatim>\<open>undefined\<close>.
\<close>

datatype 'n json =
    JNull
  | JBool bool
  | JNum 'n
  | JStr string
  | JArr "'n json list"
  | JObj "(string \<times> 'n json) list"

type_synonym 'n jsval = "'n json option"

record 'n platform =
  number_text :: "'n \<Rightarrow> string"
  number_truthy :: "'n \<Rightarrow> bool"
  number_fixed2 :: "'n \<Rightarrow> string"
  number_currency :: "'n \<Rightarrow> string"

datatype js_error = Error string | TypeError string

fun message :: "js_error \<Rightarrow> string" where
  "message (Error m) = m"
| "message (TypeError m) = m"

text \<open>Truthiness (\<^verbatim>\<open>ToBoolean\<close>) and the operator \<^verbatim>\<open>a || b\<close>.\<close>

fun truthy :: "'n platform \<Rightarrow> 'n json \<Rightarrow> bool" where
  "truthy P JNull = False"
| "truthy P (JBool b) = b"
| "truthy P (JNum n) = number_truthy P n"
| "truthy P (JStr s) = (s \<noteq> [])"
| "truthy P (JArr xs) = True"
| "truthy P (JObj kvs) = True"

fun truthy_val :: "'n platform \<Rightarrow> 'n jsval \<Rightarrow> bool" where
  "truthy_val P None = False"
| "truthy_val P (Some v) = truthy P v"

definition js_or :: "'n platform \<Rightarrow> 'n jsval \<Rightarrow> 'n jsval \<Rightarrow> 'n jsval" where
  "js_or P a b = (if truthy_val P a then a else b)"

text \<open>\<^verbatim>\<open>Array.prototype.join\<close> on strings.\<close>

fun join :: "string \<Rightarrow> string list \<Rightarrow> string" where
  "join sep [] = []"
| "join sep [x] = x"
| "join sep (x # y # ys) = x @ sep @ join sep (y # ys)"

text \<open>
  \<^verbatim>\<open>ToString\<close>, as a template literal \<^verbatim>\<open>`${v}`\<close> and \<^verbatim>\<open>new Error(v)\<close> apply it: an array
  joins its elements with commas (\<^verbatim>\<open>null\<close> printing as nothing), an object prints as
  \<^verbatim>\<open>[object Object]\<close>.
\<close>

fun to_text :: "'n platform \<Rightarrow> 'n json \<Rightarrow> string" where
  "to_text P JNull = ''null''"
| "to_text P (JBool b) = (if b then ''true'' else ''false'')"
| "to_text P (JNum n) = number_text P n"
| "to_text P (JStr s) = s"
| "to_text P (JArr xs) = join '','' (map (\<lambda>x. if x = JNull then [] else to_text P x) xs)"
| "to_text P (JObj kvs) = ''[object Object]''"

fun template :: "'n platform \<Rightarrow> 'n jsval \<Rightarrow> string" where
  "template P None = ''undefined''"
| "template P (Some v) = to_text P v"

text \<open>
  Reading a named property \<^verbatim>\<open>v.k\<close> (for the names the controller reads, none of which
  is \<^verbatim>\<open>length\<close> or an index): \<^verbatim>\<open>null\<close> has no properties and the read throws, an object
  yields the property or \<^verbatim>\<open>undefined\<close>, every other value yields \<^verbatim>\<open>undefined\<close>.
\<close>

fun property :: "'n json \<Rightarrow> string \<Rightarrow> js_error + 'n jsval" where
  "property JNull k = Inl (TypeError (''Cannot read properties of null (reading '' @ [CHR 0x27] @ k @ [CHR 0x27] @ '')''))"
| "property (JObj kvs) k = Inr (map_of kvs k)"
| "property v k = Inr None"

subsection \<open>\<^verbatim>\<open>JSON.stringify\<close>\<close>

fun decimal :: "nat \<Rightarrow> string" where
  "decimal n = (if n < 10 then [''0123456789'' ! n]
                else decimal (n div 10) @ [''0123456789'' ! (n mod 10)])"

declare decimal.simps [simp del]

definition hex2 :: "nat \<Rightarrow> string" where
  "hex2 n = [''0123456789abcdef'' ! ((n div 16) mod 16), ''0123456789abcdef'' ! (n mod 16)]"

definition escape_char :: "char \<Rightarrow> string" where
  "escape_char c =
     (if c = CHR 0x22 then [CHR 0x5C, CHR 0x22]
      else if c = CHR 0x5C then [CHR 0x5C, CHR 0x5C]
      else if c = CHR 0x08 then [CHR 0x5C, CHR ''b'']
      else if c = CHR 0x09 then [CHR 0x5C, CHR ''t'']
      else if c = CHR 0x0A then [CHR 0x5C, CHR ''n'']
      else if c = CHR 0x0C then [CHR 0x5C, CHR ''f'']
      else if c = CHR 0x0D then [CHR 0x5C, CHR ''r'']
      else if (of_char c :: nat) < 32 then [CHR 0x5C, CHR ''u'', CHR ''0'', CHR ''0''] @ hex2 (of_char c)
      else [c])"

definition quote :: "string \<Rightarrow> string" where
  "quote s = [CHR 0x22] @ concat (map escape_char s) @ [CHR 0x22]"

text \<open>
  \<open>serialize P gap indent v\<close> is \<^verbatim>\<open>SerializeJSONProperty\<close> of the language standard:
  with the empty \<open>gap\<close> the compact form, with a gap of two spaces the form of
  \<^verbatim>\<open>JSON.stringify(v, null, 2)\<close>.
\<close>

fun serialize :: "'n platform \<Rightarrow> string \<Rightarrow> string \<Rightarrow> 'n json \<Rightarrow> string" where
  "serialize P gap ind JNull = ''null''"
| "serialize P gap ind (JBool b) = (if b then ''true'' else ''false'')"
| "serialize P gap ind (JNum n) = number_text P n"
| "serialize P gap ind (JStr s) = quote s"
| "serialize P gap ind (JArr xs) =
     (if xs = [] then ''[]''
      else if gap = [] then ''['' @ join '','' (map (serialize P gap (ind @ gap)) xs) @ '']''
      else ''['' @ [CHR 0x0A] @ (ind @ gap)
           @ join ('','' @ [CHR 0x0A] @ (ind @ gap)) (map (serialize P gap (ind @ gap)) xs)
           @ [CHR 0x0A] @ ind @ '']'')"
| "serialize P gap ind (JObj kvs) =
     (if kvs = [] then ''{}''
      else if gap = [] then
        ''{'' @ join '','' (map (\<lambda>(k, v). quote k @ '':'' @ serialize P gap (ind @ gap) v) kvs) @ ''}''
      else ''{'' @ [CHR 0x0A] @ (ind @ gap)
           @ join ('','' @ [CHR 0x0A] @ (ind @ gap))
               (map (\<lambda>(k, v). quote k @ '': '' @ serialize P gap (ind @ gap) v) kvs)
           @ [CHR 0x0A] @ ind @ ''}'')"

definition stringify :: "'n platform \<Rightarrow> 'n json \<Rightarrow> string" where
  "stringify P v = serialize P [] [] v"

definition stringify_pretty :: "'n platform \<Rightarrow> 'n json \<Rightarrow> string" where
  "stringify_pretty P v = serialize P ''  '' [] v"

section \<open>Network client\<close>

text \<open>
  What \<^verbatim>\<open>fetch\<close> delivers is an input of the model: the request is rejected (the network
  is unreachable), or a response arrives with its status and a body that
  \<^verbatim>\<open>response.json()\<close> parses (\<open>Some\<close>) or rejects (\<open>None\<close>). \<^verbatim>\<open>response.ok\<close> is true for
  the statuses 200 to 299.
\<close>

record 'n response =
  status :: nat
  body :: "'n json option"

datatype 'n fetched = Rejected string | Responded "'n response"

definition ok :: "'n response \<Rightarrow> bool" where
  "ok r = (200 \<le> status r \<and> status r \<le> 299)"

text \<open>
  \<^verbatim>\<open>
  async function safeJsonFetch(url, options = {}) {
    const response = await fetch(url, options);
    const payload = await response.json().catch(() => ({}));
    if (!response.ok) {
      const detail = payload.detail || JSON.stringify(payload);
      throw new Error(detail || `Request failed with status ${response.status}`);
    }
    return payload;
  }
  \<close>
  A thrown error is \<open>Inl\<close>, the returned payload \<open>Inr\<close>.
\<close>

definition safeJsonFetch :: "'n platform \<Rightarrow> 'n fetched \<Rightarrow> js_error + 'n json" where
  "safeJsonFetch P f =
     (case f of
        Rejected m \<Rightarrow> Inl (TypeError m)
      | Responded response \<Rightarrow>
          (let payload = (case body response of None \<Rightarrow> JObj [] | Some v \<Rightarrow> v) in
           if \<not> ok response then
             (case property payload ''detail'' of
                Inl e \<Rightarrow> Inl e
              | Inr d \<Rightarrow>
                  (let detail = js_or P d (Some (JStr (stringify P payload))) in
                   Inl (Error (template P
                     (js_or P detail
                        (Some (JStr (''Request failed with status '' @ decimal (status response)))))))))
           else Inr payload))"

section \<open>Data model\<close>

text \<open>
  The documents of the backend, as the controller reads them: a capture with its assets
  and overlay polygon, a transaction, and the finance snapshot of two transaction lists.
  A coordinate pair is \<^verbatim>\<open>[lng, lat]\<close>. An overlay is a GeoJSON feature whose geometry holds a
  list of rings; \<open>None\<close> is a capture without overlay. The metadata of a transaction is an
  object, read as \<^verbatim>\<open>metadata || {}\<close> wherever the controller uses it, so an absent one is
  the empty list.
\<close>

type_synonym 'n ring = "('n \<times> 'n) list"

record 'n asset =
  asset_id :: string
  classification :: string
  volume_cubic_m :: 'n
  annotations :: "string list"

record 'n capture =
  capture_id :: string
  name :: string
  captured_on :: string
  asset_count :: 'n
  point_cloud_path :: string
  overlay :: "'n ring list option"
  assets :: "'n asset list"

record 'n transaction =
  transaction_id :: string
  description :: string
  category :: string
  amount :: 'n
  occurred_on :: string
  transaction_type :: string
  metadata :: "(string \<times> 'n json) list"

record 'n snapshot =
  income :: "'n transaction list"
  expenses :: "'n transaction list"

subsection \<open>Reading the documents\<close>

text \<open>
  JavaScript has no decoding step: the controller reads properties of the parsed
  response. The readers below give the typed view of a response that has the shape of
  the interface contract; a response of another shape has no typed view (\<open>None\<close>), and
  the handlers of the model do not follow the controller on it.
\<close>

fun fields :: "'n json \<Rightarrow> (string \<times> 'n json) list option" where
  "fields (JObj kvs) = Some kvs"
| "fields v = None"

fun as_string :: "'n json \<Rightarrow> string option" where
  "as_string (JStr s) = Some s"
| "as_string v = None"

fun as_number :: "'n json \<Rightarrow> 'n option" where
  "as_number (JNum n) = Some n"
| "as_number v = None"

fun as_array :: "'n json \<Rightarrow> 'n json list option" where
  "as_array (JArr xs) = Some xs"
| "as_array v = None"

definition string_field :: "(string \<times> 'n json) list \<Rightarrow> string \<Rightarrow> string option" where
  "string_field kvs k = Option.bind (map_of kvs k) as_string"

definition number_field :: "(string \<times> 'n json) list \<Rightarrow> string \<Rightarrow> 'n option" where
  "number_field kvs k = Option.bind (map_of kvs k) as_number"

definition array_field :: "(string \<times> 'n json) list \<Rightarrow> string \<Rightarrow> 'n json list option" where
  "array_field kvs k = Option.bind (map_of kvs k) as_array"

definition read_asset :: "'n json \<Rightarrow> 'n asset option" where
  "read_asset v = do {
     kvs \<leftarrow> fields v;
     i \<leftarrow> string_field kvs ''asset_id'';
     c \<leftarrow> string_field kvs ''classification'';
     vol \<leftarrow> number_field kvs ''volume_cubic_m'';
     notes \<leftarrow> array_field kvs ''annotations'';
     ns \<leftarrow> those (map as_string notes);
     Some \<lparr>asset_id = i, classification = c, volume_cubic_m = vol, annotations = ns\<rparr>
   }"

fun read_point :: "'n json \<Rightarrow> ('n \<times> 'n) option" where
  "read_point (JArr (JNum lng # JNum lat # rest)) = Some (lng, lat)"
| "read_point v = None"

definition read_ring :: "'n json \<Rightarrow> 'n ring option" where
  "read_ring v = Option.bind (as_array v) (\<lambda>ps. those (map read_point ps))"

definition read_overlay :: "'n jsval \<Rightarrow> 'n ring list option option" where
  "read_overlay v =
     (case v of
        None \<Rightarrow> Some None
      | Some JNull \<Rightarrow> Some None
      | Some w \<Rightarrow> do {
          kvs \<leftarrow> fields w;
          g \<leftarrow> map_of kvs ''geometry'';
          gkvs \<leftarrow> fields g;
          cs \<leftarrow> array_field gkvs ''coordinates'';
          rings \<leftarrow> those (map read_ring cs);
          Some (Some rings)
        })"

definition read_capture :: "'n json \<Rightarrow> 'n capture option" where
  "read_capture v = do {
     kvs \<leftarrow> fields v;
     i \<leftarrow> string_field kvs ''capture_id'';
     n \<leftarrow> string_field kvs ''name'';
     d \<leftarrow> string_field kvs ''captured_on'';
     k \<leftarrow> number_field kvs ''asset_count'';
     p \<leftarrow> string_field kvs ''point_cloud_path'';
     ov \<leftarrow> read_overlay (map_of kvs ''overlay'');
     as \<leftarrow> array_field kvs ''assets'';
     xs \<leftarrow> those (map read_asset as);
     Some \<lparr>capture_id = i, name = n, captured_on = d, asset_count = k,
           point_cloud_path = p, overlay = ov, assets = xs\<rparr>
   }"

definition read_captures :: "'n json \<Rightarrow> 'n capture list option" where
  "read_captures payload = do {
     kvs \<leftarrow> fields payload;
     cs \<leftarrow> array_field kvs ''captures'';
     those (map read_capture cs)
   }"

definition read_metadata :: "'n jsval \<Rightarrow> (string \<times> 'n json) list option" where
  "read_metadata v =
     (case v of None \<Rightarrow> Some [] | Some JNull \<Rightarrow> Some [] | Some w \<Rightarrow> fields w)"

definition read_transaction :: "'n json \<Rightarrow> 'n transaction option" where
  "read_transaction v = do {
     kvs \<leftarrow> fields v;
     i \<leftarrow> string_field kvs ''transaction_id'';
     d \<leftarrow> string_field kvs ''description'';
     c \<leftarrow> string_field kvs ''category'';
     a \<leftarrow> number_field kvs ''amount'';
     on \<leftarrow> string_field kvs ''occurred_on'';
     ty \<leftarrow> string_field kvs ''transaction_type'';
     md \<leftarrow> read_metadata (map_of kvs ''metadata'');
     Some \<lparr>transaction_id = i, description = d, category = c, amount = a,
           occurred_on = on, transaction_type = ty, metadata = md\<rparr>
   }"

definition read_snapshot :: "'n json \<Rightarrow> 'n snapshot option" where
  "read_snapshot v = do {
     kvs \<leftarrow> fields v;
     inc \<leftarrow> array_field kvs ''income'';
     exs \<leftarrow> array_field kvs ''expenses'';
     is \<leftarrow> those (map read_transaction inc);
     es \<leftarrow> those (map read_transaction exs);
     Some \<lparr>income = is, expenses = es\<rparr>
   }"

text \<open>The answer to a duplicate request: \<^verbatim>\<open>{ transaction, snapshot }\<close>.\<close>

definition read_duplicate :: "'n json \<Rightarrow> ('n json \<times> 'n snapshot) option" where
  "read_duplicate payload = do {
     kvs \<leftarrow> fields payload;
     t \<leftarrow> map_of kvs ''transaction'';
     s \<leftarrow> map_of kvs ''snapshot'';
     snap \<leftarrow> read_snapshot s;
     Some (t, snap)
   }"

text \<open>
  A runtime for the worked examples: the numbers are naturals below \<open>2^53\<close>, which
  JavaScript prints in decimal, with two zero decimals under \<^verbatim>\<open>toFixed(2)\<close>, and as pounds
  with grouped thousands under the \<^verbatim>\<open>en-GB\<close> currency format; only zero is falsy.
\<close>

fun grouped :: "nat \<Rightarrow> string" where
  "grouped n =
     (if n < 1000 then decimal n
      else grouped (n div 1000) @ '','' @ [''0123456789'' ! (n mod 1000 div 100),
             ''0123456789'' ! (n mod 100 div 10), ''0123456789'' ! (n mod 10)])"

declare grouped.simps [simp del]

definition nat_platform :: "nat platform" where
  "nat_platform =
     \<lparr>number_text = decimal,
      number_truthy = (\<lambda>n. n \<noteq> 0),
      number_fixed2 = (\<lambda>n. decimal n @ ''.00''),
      number_currency = (\<lambda>n. [CHR 0xC2, CHR 0xA3] @ grouped n @ ''.00'')\<rparr>"

section \<open>The page and the controller's state\<close>

text \<open>
  One record holds the \<^verbatim>\<open>state\<close> object of the script and the parts of the document it
  reads and writes. Elements that the script checks before use (\<^verbatim>\<open>if (!form) return\<close>) are
  optional; elements it uses unchecked are taken to be in the page. The rows of the
  finance tables are kept as data: the text of each cell and the attributes the script
  sets; markup inside a field value is not interpreted there. In the survey panes what
  the script assigns to \<^verbatim>\<open>innerHTML\<close> is kept as the very string it assigns (a list item,
  the link to the point cloud, an asset row), together with the capture that the click
  listener of a list item is bound to. The fields of the duplicate form are text fields:
  each keeps the value assigned to it.
\<close>

record 'n latlng =
  lat :: 'n
  lng :: 'n

datatype 'n shape =
    RectangleShape "'n latlng" "'n latlng"
  | PolygonShape "'n latlng list"

record 'n survey_item =
  item_innerHTML :: string
  bound_capture :: "'n capture"

record fin_row =
  row_transaction_id :: "string option"
  cells :: "string list"
  duplicate_button :: "string option"
  selected :: bool

record finance_form =
  source_transaction_id :: string
  form_description :: string
  form_category :: string
  form_amount :: string
  form_occurred_on :: string
  form_transaction_type :: string
  form_metadata :: string

record request =
  url :: string
  http_method :: string
  form_data :: "(string \<times> string) list"

record 'n state =
  activeMap :: string
  drawnGeoJson :: "'n json option"
  leaflet_ready :: bool
  leaflet_overlay :: "'n ring list option list"
  google_ready :: bool
  google_polygon :: "'n shape option"
  google_overlay :: "'n latlng list option"
  surveyCaptures :: "'n capture list"
  finance_snapshot :: "'n snapshot"
  finance_selectedId :: "string option"
  log_text :: string
  area_geojson_value :: string
  leaflet_hidden :: bool
  google_hidden :: bool
  route_output :: string
  upload_output :: string
  classify_output :: string
  comparison_output :: string
  annotation_output :: string
  survey_days :: "'n survey_item list"
  base_options :: "(string \<times> string) list"
  target_options :: "(string \<times> string) list"
  survey_summary :: string
  point_cloud_link :: string
  asset_table :: "string list"
  income_body :: "fin_row list option"
  expense_body :: "fin_row list option"
  finance_form :: "finance_form option"
  finance_form_default :: finance_form
  finance_selection_summary :: "string option"
  finance_output :: "string option"
  profile_expanded :: bool
  profile_menu_open :: bool


definition em_dash :: string where
  "em_dash = [CHR 0xE2, CHR 0x80, CHR 0x94]"

definition en_dash :: string where
  "en_dash = [CHR 0xE2, CHR 0x80, CHR 0x93]"

section \<open>Logging sink\<close>

text \<open>
  \<^verbatim>\<open>
  function appendLog(message) {
    const timestamp = new Date().toISOString();
    logPanel.textContent = `${timestamp}: ${message}\n${logPanel.textContent}`;
  }
  \<close>
  The clock is an input: \<open>ts\<close> is the timestamp the call reads.
\<close>

definition appendLog :: "string \<Rightarrow> string \<Rightarrow> 'n state \<Rightarrow> 'n state" where
  "appendLog ts m st = st\<lparr>log_text := ts @ '': '' @ m @ [CHR 0x0A] @ log_text st\<rparr>"

section \<open>Geometry canonicalizer and map adapters\<close>

text \<open>
  \<^verbatim>\<open>
  function setDrawnGeometry(geojson) {
    state.drawnGeoJson = geojson;
    const input = document.getElementById('area-geojson');
    input.value = geojson ? JSON.stringify(geojson) : '';
    appendLog(geojson ? 'Updated capture polygon from map interaction.' : 'Cleared capture polygon.');
  }
  \<close>
  \<open>None\<close> is \<^verbatim>\<open>null\<close>.
\<close>

definition setDrawnGeometry :: "'n platform \<Rightarrow> string \<Rightarrow> 'n json option \<Rightarrow> 'n state \<Rightarrow> 'n state" where
  "setDrawnGeometry P ts geojson st =
     appendLog ts
       (if truthy_val P geojson then ''Updated capture polygon from map interaction.''
        else ''Cleared capture polygon.'')
       (st\<lparr>drawnGeoJson := geojson,
           area_geojson_value :=
             (case geojson of
                None \<Rightarrow> []
              | Some g \<Rightarrow> if truthy P g then stringify P g else [])\<rparr>)"

text \<open>The Leaflet adapter: the handlers of the created, edited and deleted events.\<close>

definition leaflet_created :: "'n platform \<Rightarrow> string \<Rightarrow> 'n json \<Rightarrow> 'n state \<Rightarrow> 'n state" where
  "leaflet_created P ts geojson st = setDrawnGeometry P ts (Some geojson) st"

fun leaflet_edited :: "'n platform \<Rightarrow> (string \<times> 'n json) list \<Rightarrow> 'n state \<Rightarrow> 'n state" where
  "leaflet_edited P [] st = st"
| "leaflet_edited P ((ts, geojson) # layers) st =
     leaflet_edited P layers (setDrawnGeometry P ts (Some geojson) st)"

definition leaflet_deleted :: "'n platform \<Rightarrow> string \<Rightarrow> 'n state \<Rightarrow> 'n state" where
  "leaflet_deleted P ts st = setDrawnGeometry P ts None st"

text \<open>
  The Google adapter, handler of \<^verbatim>\<open>overlaycomplete\<close>. The event carries the finished
  shape: a rectangle gives its bounds (south-west and north-east corner), a polygon its
  path.
  \<^verbatim>\<open>
    state.google.polygon = event.overlay;
    let geojson;
    if (event.type === google.maps.drawing.OverlayType.RECTANGLE) {
      const bounds = event.overlay.getBounds();
      geojson = { type: 'Polygon', coordinates: [[
          [bounds.getSouthWest().lng(), bounds.getSouthWest().lat()],
          [bounds.getNorthEast().lng(), bounds.getSouthWest().lat()],
          [bounds.getNorthEast().lng(), bounds.getNorthEast().lat()],
          [bounds.getSouthWest().lng(), bounds.getNorthEast().lat()],
          [bounds.getSouthWest().lng(), bounds.getSouthWest().lat()],
      ]] };
    } else {
      const path = event.overlay.getPath();
      geojson = { type: 'Polygon', coordinates: [[
          ...Array.from({ length: path.getLength() }, (_, index) => {
            const point = path.getAt(index);
            return [point.lng(), point.lat()];
          }),
          (() => { const point = path.getAt(0); return [point.lng(), point.lat()]; })(),
      ]] };
    }
    setDrawnGeometry(geojson);
  \<close>
  The previous shape is taken off the map, so \<open>google_polygon\<close> is the one shape shown.
  On an empty path \<^verbatim>\<open>path.getAt(0)\<close> is \<^verbatim>\<open>undefined\<close> and the handler throws before it
  reaches \<^verbatim>\<open>setDrawnGeometry\<close>.
\<close>

definition position :: "'n \<Rightarrow> 'n \<Rightarrow> 'n json" where
  "position x y = JArr [JNum x, JNum y]"

definition polygon_geojson :: "'n json list \<Rightarrow> 'n json" where
  "polygon_geojson ring = JObj [(''type'', JStr ''Polygon''), (''coordinates'', JArr [JArr ring])]"

definition rectangle_ring :: "'n latlng \<Rightarrow> 'n latlng \<Rightarrow> 'n json list" where
  "rectangle_ring sw ne =
     [position (lng sw) (lat sw),
      position (lng ne) (lat sw),
      position (lng ne) (lat ne),
      position (lng sw) (lat ne),
      position (lng sw) (lat sw)]"

definition path_ring :: "'n latlng list \<Rightarrow> js_error + 'n json list" where
  "path_ring path =
     (case path of
        [] \<Rightarrow> Inl (TypeError ''Cannot read properties of undefined (reading 'lng')'')
      | first # rest \<Rightarrow>
          Inr (map (\<lambda>point. position (lng point) (lat point)) path
               @ [position (lng first) (lat first)]))"

definition overlaycomplete ::
  "'n platform \<Rightarrow> string \<Rightarrow> 'n shape \<Rightarrow> 'n state \<Rightarrow> 'n state \<times> js_error option" where
  "overlaycomplete P ts shape st =
     (let st1 = st\<lparr>google_polygon := Some shape\<rparr> in
      case shape of
        RectangleShape sw ne \<Rightarrow>
          (setDrawnGeometry P ts (Some (polygon_geojson (rectangle_ring sw ne))) st1, None)
      | PolygonShape path \<Rightarrow>
          (case path_ring path of
             Inl e \<Rightarrow> (st1, Some e)
           | Inr ring \<Rightarrow> (setDrawnGeometry P ts (Some (polygon_geojson ring)) st1, None)))"

text \<open>
  \<^verbatim>\<open>
  function toggleMap(provider) {
    state.activeMap = provider;
    document.getElementById('leaflet-map').classList.toggle('hidden', provider !== 'osm');
    document.getElementById('google-map').classList.toggle('hidden', provider !== 'google');
    appendLog(`Switched basemap to ${provider}.`);
  }
  \<close>
\<close>

definition toggleMap :: "string \<Rightarrow> string \<Rightarrow> 'n state \<Rightarrow> 'n state" where
  "toggleMap ts provider st =
     appendLog ts (''Switched basemap to '' @ provider @ ''.'')
       (st\<lparr>activeMap := provider,
           leaflet_hidden := (provider \<noteq> ''osm''),
           google_hidden := (provider \<noteq> ''google'')\<rparr>)"

section \<open>Form controllers\<close>

text \<open>
  An \<^verbatim>\<open>async\<close> handler runs up to its \<^verbatim>\<open>await\<close>, where it hands a request to the network,
  and resumes when the answer is there; other handlers may run in between. The model has
  one function for each part: \<open>_request\<close> builds what is sent from the state at submit
  time, \<open>_response\<close> continues from the state at the time of the answer.

  \<^verbatim>\<open>FormData.set(name, value)\<close> replaces the first entry of that name and removes the
  others, or appends the entry when there is none.
\<close>

fun formdata_set :: "string \<Rightarrow> string \<Rightarrow> (string \<times> string) list \<Rightarrow> (string \<times> string) list" where
  "formdata_set k v [] = [(k, v)]"
| "formdata_set k v (e # es) =
     (if fst e = k then (k, v) # filter (\<lambda>x. fst x \<noteq> k) es
      else e # formdata_set k v es)"

text \<open>\<^verbatim>\<open>FormData.get(name)\<close> and \<^verbatim>\<open>FormData.getAll(name)\<close>.\<close>

definition formdata_get :: "(string \<times> string) list \<Rightarrow> string \<Rightarrow> string option" where
  "formdata_get es k = map_of es k"

definition formdata_getAll :: "(string \<times> string) list \<Rightarrow> string \<Rightarrow> string list" where
  "formdata_getAll es k = map snd (filter (\<lambda>x. fst x = k) es)"

text \<open>
  \<^verbatim>\<open>
  async function submitRoute(event) {
    event.preventDefault();
    const form = event.target;
    const formData = new FormData(form);
    if (state.drawnGeoJson) {
      formData.set('area_geojson', JSON.stringify(state.drawnGeoJson));
    }
    const output = document.getElementById('route-output');
    try {
      const payload = await safeJsonFetch('/plan-route', { method: 'POST', body: formData });
      output.textContent = JSON.stringify(payload, null, 2);
    } catch (error) {
      output.textContent = `Route planning failed: ${error.message}`;
    }
  }
  \<close>
  \<open>entries\<close> is the entry list of the submitted form, whatever its fields hold.
\<close>

definition submitRoute_request :: "'n platform \<Rightarrow> (string \<times> string) list \<Rightarrow> 'n state \<Rightarrow> request" where
  "submitRoute_request P entries st =
     \<lparr>url = ''/plan-route'', http_method = ''POST'',
      form_data =
        (case drawnGeoJson st of
           None \<Rightarrow> entries
         | Some g \<Rightarrow>
             if truthy P g then formdata_set ''area_geojson'' (stringify P g) entries
             else entries)\<rparr>"

definition submitRoute_response :: "'n platform \<Rightarrow> 'n fetched \<Rightarrow> 'n state \<Rightarrow> 'n state" where
  "submitRoute_response P f st =
     (case safeJsonFetch P f of
        Inr payload \<Rightarrow> st\<lparr>route_output := stringify_pretty P payload\<rparr>
      | Inl error \<Rightarrow> st\<lparr>route_output := ''Route planning failed: '' @ message error\<rparr>)"

definition submitUpload_request :: "(string \<times> string) list \<Rightarrow> request" where
  "submitUpload_request entries =
     \<lparr>url = ''/ingest-footage'', http_method = ''POST'', form_data = entries\<rparr>"

definition submitUpload_response :: "'n platform \<Rightarrow> 'n fetched \<Rightarrow> 'n state \<Rightarrow> 'n state" where
  "submitUpload_response P f st =
     (case safeJsonFetch P f of
        Inr payload \<Rightarrow> st\<lparr>upload_output := stringify_pretty P payload\<rparr>
      | Inl error \<Rightarrow> st\<lparr>upload_output := ''Upload failed: '' @ message error\<rparr>)"

definition runClassification_request :: request where
  "runClassification_request = \<lparr>url = ''/classify-demo'', http_method = ''GET'', form_data = []\<rparr>"

definition runClassification_response :: "'n platform \<Rightarrow> 'n fetched \<Rightarrow> 'n state \<Rightarrow> 'n state" where
  "runClassification_response P f st =
     (case safeJsonFetch P f of
        Inr payload \<Rightarrow> st\<lparr>classify_output := stringify_pretty P payload\<rparr>
      | Inl error \<Rightarrow> st\<lparr>classify_output := ''Classification failed: '' @ message error\<rparr>)"

definition submitComparison_request :: "(string \<times> string) list \<Rightarrow> request" where
  "submitComparison_request entries =
     \<lparr>url = ''/compare-captures'', http_method = ''POST'', form_data = entries\<rparr>"

definition submitComparison_response :: "'n platform \<Rightarrow> 'n fetched \<Rightarrow> 'n state \<Rightarrow> 'n state" where
  "submitComparison_response P f st =
     (case safeJsonFetch P f of
        Inr payload \<Rightarrow> st\<lparr>comparison_output := stringify_pretty P payload\<rparr>
      | Inl error \<Rightarrow> st\<lparr>comparison_output := ''Comparison failed: '' @ message error\<rparr>)"

text \<open>
  The annotation controller shows the answer and then calls \<^verbatim>\<open>loadSurveyDays()\<close>; the
  second component tells whether that reload was started.
\<close>

definition submitAnnotation_request :: "(string \<times> string) list \<Rightarrow> request" where
  "submitAnnotation_request entries =
     \<lparr>url = ''/annotate-asset'', http_method = ''POST'', form_data = entries\<rparr>"

definition submitAnnotation_response :: "'n platform \<Rightarrow> 'n fetched \<Rightarrow> 'n state \<Rightarrow> 'n state \<times> bool" where
  "submitAnnotation_response P f st =
     (case safeJsonFetch P f of
        Inr payload \<Rightarrow> (st\<lparr>annotation_output := stringify_pretty P payload\<rparr>, True)
      | Inl error \<Rightarrow> (st\<lparr>annotation_output := ''Annotation failed: '' @ message error\<rparr>, False))"

text \<open>The profile button toggles its \<^verbatim>\<open>aria-expanded\<close> attribute and the menu's \<^verbatim>\<open>open\<close> class.\<close>

definition profile_click :: "'n state \<Rightarrow> 'n state" where
  "profile_click st =
     st\<lparr>profile_expanded := \<not> profile_expanded st, profile_menu_open := \<not> profile_menu_open st\<rparr>"

section \<open>Review state store: survey captures\<close>

text \<open>
  \<^verbatim>\<open>
  function renderSurveyList(captures) {
    const list = document.getElementById('survey-days');
    list.innerHTML = '';
    captures.forEach((capture) => {
      const item = document.createElement('li');
      item.innerHTML = `<button type="button" data-capture="${capture.capture_id}">${capture.name} - ${capture.captured_on}</button>`;
      item.querySelector('button').addEventListener('click', () => showSurveyDetails(capture));
      list.appendChild(item);
    });
    appendLog('Survey list rendered.');
  }
  \<close>
  (the dash of the label is an en dash in the source). The item keeps the string assigned
  to \<^verbatim>\<open>innerHTML\<close>. That string opens with a button tag, so the item always has a first
  button, and the listener added to it calls \<open>showSurveyDetails\<close> with the capture of this
  round of the loop.
\<close>

definition in_quotes :: "string \<Rightarrow> string" where
  "in_quotes s = [CHR 0x22] @ s @ [CHR 0x22]"

definition survey_item_of :: "'n capture \<Rightarrow> 'n survey_item" where
  "survey_item_of capture =
     \<lparr>item_innerHTML =
        ''<button type='' @ in_quotes ''button'' @ '' data-capture=''
        @ in_quotes (capture_id capture) @ ''>''
        @ name capture @ '' '' @ en_dash @ '' '' @ captured_on capture @ ''</button>'',
      bound_capture = capture\<rparr>"

definition renderSurveyList :: "string \<Rightarrow> 'n capture list \<Rightarrow> 'n state \<Rightarrow> 'n state" where
  "renderSurveyList ts captures st =
     appendLog ts ''Survey list rendered.'' (st\<lparr>survey_days := map survey_item_of captures\<rparr>)"

definition populateSurveySelects :: "'n capture list \<Rightarrow> 'n state \<Rightarrow> 'n state" where
  "populateSurveySelects captures st =
     (let options = map (\<lambda>capture. (capture_id capture,
                          name capture @ '' ('' @ captured_on capture @ '')'')) captures
      in st\<lparr>base_options := options, target_options := options\<rparr>)"

text \<open>
  \<^verbatim>\<open>
  function updateMapOverlay(capture) {
    if (state.leaflet.map && state.leaflet.overlayLayer) {
      state.leaflet.overlayLayer.clearLayers();
      const layer = L.geoJSON(capture.overlay);
      state.leaflet.overlayLayer.addLayer(layer);
      state.leaflet.map.fitBounds(layer.getBounds(), { padding: [20, 20] });
    }
    if (state.google.map && window.google && capture.overlay) {
      if (state.google.overlay) { state.google.overlay.setMap(null); }
      const coordinates = capture.overlay.geometry.coordinates[0].map(([lng, lat]) => ({ lat, lng }));
      state.google.overlay = new google.maps.Polygon({ paths: coordinates, ... });
      state.google.overlay.setMap(state.google.map);
      ...
    }
  }
  \<close>
  The viewport is not part of the state. Leaflet builds a layer from any overlay, also
  from \<^verbatim>\<open>null\<close>, but the bounds of a layer without a single position are not valid, and
  \<^verbatim>\<open>fitBounds\<close> then throws \<^verbatim>\<open>Error('Bounds are not valid.')\<close>: the new layer has replaced the
  old one and the Google branch is not reached. In the Google branch an overlay without
  a ring makes \<^verbatim>\<open>coordinates[0].map\<close> throw.
\<close>

definition has_position :: "'n ring list option \<Rightarrow> bool" where
  "has_position ov =
     (case ov of None \<Rightarrow> False | Some rings \<Rightarrow> list_ex (\<lambda>ring. ring \<noteq> []) rings)"

definition updateMapOverlay :: "'n capture \<Rightarrow> 'n state \<Rightarrow> 'n state \<times> js_error option" where
  "updateMapOverlay capture st =
     (let st1 = (if leaflet_ready st then st\<lparr>leaflet_overlay := [overlay capture]\<rparr> else st) in
      if leaflet_ready st \<and> \<not> has_position (overlay capture)
      then (st1, Some (Error ''Bounds are not valid.''))
      else if google_ready st1 then
        (case overlay capture of
           None \<Rightarrow> (st1, None)
         | Some [] \<Rightarrow> (st1, Some (TypeError ''Cannot read properties of undefined (reading 'map')''))
         | Some (ring # rest) \<Rightarrow>
             (st1\<lparr>google_overlay := Some (map (\<lambda>(x, y). \<lparr>lat = y, lng = x\<rparr>) ring)\<rparr>, None))
      else (st1, None))"

text \<open>
  \<^verbatim>\<open>
  function showSurveyDetails(capture) {
    ...
    summary.textContent = `${capture.name} captured on ${capture.captured_on}. ${capture.asset_count} assets detected.`;
    pointCloud.innerHTML = `<a href="${capture.point_cloud_path}" target="_blank" rel="noopener">Open point cloud export</a>`;
    ...
    capture.assets.forEach((asset) => {
      const row = document.createElement('tr');
      row.innerHTML = `
        <td>${asset.asset_id}</td>
        <td>${asset.classification}</td>
        <td>${asset.volume_cubic_m.toFixed(2)}</td>
        <td>${asset.annotations.join('; ') || '-'}</td>
      `;
      tbody.appendChild(row);
    });
    assetTable.innerHTML = '';
    assetTable.appendChild(table);
    appendLog(`Loaded survey details for ${capture.capture_id}.`);
    updateMapOverlay(capture);
  }
  \<close>
  (the placeholder for no annotation is an em dash in the source). The function takes the
  capture object itself; it does not read \<^verbatim>\<open>state.surveyCaptures\<close>. \<open>asset_table\<close> holds the
  string assigned to each row of the table body, with the line breaks and the
  indentation of the template.
\<close>

definition asset_row :: "'n platform \<Rightarrow> 'n asset \<Rightarrow> string" where
  "asset_row P asset =
     [CHR 0x0A] @ ''      <td>'' @ asset_id asset @ ''</td>''
     @ [CHR 0x0A] @ ''      <td>'' @ classification asset @ ''</td>''
     @ [CHR 0x0A] @ ''      <td>'' @ number_fixed2 P (volume_cubic_m asset) @ ''</td>''
     @ [CHR 0x0A] @ ''      <td>''
     @ (let joined = join ''; '' (annotations asset) in if joined = [] then em_dash else joined)
     @ ''</td>''
     @ [CHR 0x0A] @ ''    ''"

definition showSurveyDetails ::
  "'n platform \<Rightarrow> string \<Rightarrow> 'n capture \<Rightarrow> 'n state \<Rightarrow> 'n state \<times> js_error option" where
  "showSurveyDetails P ts capture st =
     updateMapOverlay capture
       (appendLog ts (''Loaded survey details for '' @ capture_id capture @ ''.'')
          (st\<lparr>survey_summary :=
                 name capture @ '' captured on '' @ captured_on capture @ ''. ''
                 @ number_text P (asset_count capture) @ '' assets detected.'',
               point_cloud_link :=
                 ''<a href='' @ in_quotes (point_cloud_path capture)
                 @ '' target='' @ in_quotes ''_blank'' @ '' rel='' @ in_quotes ''noopener''
                 @ ''>Open point cloud export</a>'',
               asset_table := map (asset_row P) (assets capture)\<rparr>))"

text \<open>
  \<^verbatim>\<open>
  async function loadSurveyDays() {
    try {
      const payload = await safeJsonFetch('/survey-days');
      state.surveyCaptures = payload.captures;
      renderSurveyList(state.surveyCaptures);
      populateSurveySelects(state.surveyCaptures);
    } catch (error) {
      appendLog(`Failed to load survey days: ${error.message}`);
    }
  }
  \<close>
\<close>

definition loadSurveyDays_request :: request where
  "loadSurveyDays_request = \<lparr>url = ''/survey-days'', http_method = ''GET'', form_data = []\<rparr>"

definition loadSurveyDays_response ::
  "'n platform \<Rightarrow> string \<Rightarrow> 'n fetched \<Rightarrow> 'n state \<Rightarrow> 'n state option" where
  "loadSurveyDays_response P ts f st =
     (case safeJsonFetch P f of
        Inl error \<Rightarrow> Some (appendLog ts (''Failed to load survey days: '' @ message error) st)
      | Inr payload \<Rightarrow>
          (case read_captures payload of
             None \<Rightarrow> None
           | Some captures \<Rightarrow>
               Some (populateSurveySelects captures
                       (renderSurveyList ts captures (st\<lparr>surveyCaptures := captures\<rparr>)))))"

text \<open>
  The script has no selection by id: a capture is selected by a click on its button, and
  the click runs the listener bound to that button. \<open>survey_button_click\<close> is a click at a
  position of the list; at a position without a button no listener runs.
\<close>

definition survey_button_click ::
  "'n platform \<Rightarrow> string \<Rightarrow> nat \<Rightarrow> 'n state \<Rightarrow> 'n state \<times> js_error option" where
  "survey_button_click P ts i st =
     (if i < length (survey_days st)
      then showSurveyDetails P ts (bound_capture (survey_days st ! i)) st
      else (st, None))"

section \<open>Review state store: finance\<close>

definition formatCurrency :: "'n platform \<Rightarrow> 'n \<Rightarrow> string" where
  "formatCurrency P v = number_currency P v"

text \<open>
  \<^verbatim>\<open>
  function renderMetadataSummary(metadata) {
    const entries = Object.entries(metadata || {});
    if (!entries.length) { return '-'; }
    return entries.map(([key, value]) => `${key}: ${value}`).join(', ');
  }
  \<close>
  (the placeholder is an em dash in the source).
\<close>

definition renderMetadataSummary :: "'n platform \<Rightarrow> (string \<times> 'n json) list \<Rightarrow> string" where
  "renderMetadataSummary P entries =
     (if entries = [] then em_dash
      else join '', '' (map (\<lambda>(k, v). k @ '': '' @ to_text P v) entries))"

text \<open>
  The inner function \<^verbatim>\<open>renderRows\<close> of \<^verbatim>\<open>renderFinanceTables\<close>; the result is the new content
  of the table body.
  \<^verbatim>\<open>
    const renderRows = (tbody, entries) => {
      tbody.innerHTML = '';
      if (!entries.length) {
        const emptyRow = document.createElement('tr');
        emptyRow.innerHTML = '<td colspan="6">No entries recorded yet.</td>';
        tbody.appendChild(emptyRow);
        return;
      }
      entries.forEach((transaction) => {
        const row = document.createElement('tr');
        row.dataset.transactionId = transaction.transaction_id;
        row.innerHTML = `
          <td>${transaction.description}</td>
          <td>${transaction.category}</td>
          <td>${formatCurrency(transaction.amount)}</td>
          <td>${transaction.occurred_on}</td>
          <td>${renderMetadataSummary(transaction.metadata)}</td>
          <td><button type="button" class="duplicate-transaction" data-transaction="${transaction.transaction_id}">Duplicate</button></td>
        `;
        if (state.finance.selectedId === transaction.transaction_id) {
          row.classList.add('selected');
        }
        tbody.appendChild(row);
      });
    };
  \<close>
\<close>

definition empty_row :: fin_row where
  "empty_row =
     \<lparr>row_transaction_id = None, cells = [''No entries recorded yet.''],
      duplicate_button = None, selected = False\<rparr>"

definition transaction_row :: "'n platform \<Rightarrow> string option \<Rightarrow> 'n transaction \<Rightarrow> fin_row" where
  "transaction_row P selectedId transaction =
     \<lparr>row_transaction_id = Some (transaction_id transaction),
      cells = [description transaction,
               category transaction,
               formatCurrency P (amount transaction),
               occurred_on transaction,
               renderMetadataSummary P (metadata transaction),
               ''Duplicate''],
      duplicate_button = Some (transaction_id transaction),
      selected = (selectedId = Some (transaction_id transaction))\<rparr>"

definition renderRows :: "'n platform \<Rightarrow> string option \<Rightarrow> 'n transaction list \<Rightarrow> fin_row list" where
  "renderRows P selectedId entries =
     (if entries = [] then [empty_row]
      else map (transaction_row P selectedId) entries)"

text \<open>
  \<^verbatim>\<open>
  function renderFinanceTables(snapshot) {
    state.finance.snapshot = snapshot;
    const incomeBody = document.getElementById('income-body');
    const expenseBody = document.getElementById('expense-body');
    if (!incomeBody || !expenseBody) { return; }
    ...
    renderRows(incomeBody, snapshot.income);
    renderRows(expenseBody, snapshot.expenses);
    bindFinanceDuplicateButtons();
  }
  \<close>
  \<^verbatim>\<open>bindFinanceDuplicateButtons\<close> gives every duplicate button of the fresh rows its click
  listener; what the listener does is \<open>duplicate_button_click\<close> below.
\<close>

definition renderFinanceTables :: "'n platform \<Rightarrow> 'n snapshot \<Rightarrow> 'n state \<Rightarrow> 'n state" where
  "renderFinanceTables P snapshot st =
     (let st1 = st\<lparr>finance_snapshot := snapshot\<rparr> in
      if income_body st1 = None \<or> expense_body st1 = None then st1
      else st1\<lparr>income_body := Some (renderRows P (finance_selectedId st1) (income snapshot)),
               expense_body := Some (renderRows P (finance_selectedId st1) (expenses snapshot))\<rparr>)"

text \<open>
  \<^verbatim>\<open>
  function findFinanceTransaction(transactionId) {
    const { income, expenses } = state.finance.snapshot;
    return [...income, ...expenses].find((entry) => entry.transaction_id === transactionId) || null;
  }
  \<close>
  \<open>None\<close> is \<^verbatim>\<open>null\<close>.
\<close>

definition findFinanceTransaction :: "'n state \<Rightarrow> string \<Rightarrow> 'n transaction option" where
  "findFinanceTransaction st transactionId =
     find (\<lambda>entry. transaction_id entry = transactionId)
       (income (finance_snapshot st) @ expenses (finance_snapshot st))"

text \<open>
  \<^verbatim>\<open>
  function updateFinanceSelectionSummary(transaction) {
    const summary = document.getElementById('finance-selection-summary');
    if (!summary) { return; }
    if (!transaction) {
      summary.textContent = 'Select an entry to duplicate its details.';
      return;
    }
    summary.textContent = `Duplicating ${transaction.transaction_type} ${transaction.transaction_id}. Adjust any fields before saving.`;
  }
  \<close>
\<close>

definition updateFinanceSelectionSummary :: "'n transaction option \<Rightarrow> 'n state \<Rightarrow> 'n state" where
  "updateFinanceSelectionSummary transaction st =
     (case finance_selection_summary st of
        None \<Rightarrow> st
      | Some old \<Rightarrow>
          st\<lparr>finance_selection_summary :=
               Some (case transaction of
                       None \<Rightarrow> ''Select an entry to duplicate its details.''
                     | Some t \<Rightarrow> ''Duplicating '' @ transaction_type t @ '' '' @ transaction_id t
                                 @ ''. Adjust any fields before saving.'')\<rparr>)"

text \<open>
  \<^verbatim>\<open>
  function highlightFinanceSelection() {
    document.querySelectorAll('#finance-panel tbody tr').forEach((row) => {
      if (row.dataset.transactionId === state.finance.selectedId) {
        row.classList.add('selected');
      } else {
        row.classList.remove('selected');
      }
    });
  }
  \<close>
  The rows of the finance panel are the rows of the two table bodies. A placeholder row
  has no \<^verbatim>\<open>data-transaction-id\<close> (\<^verbatim>\<open>undefined\<close>), which is not identical to \<^verbatim>\<open>null\<close>.
\<close>

definition highlight_row :: "string option \<Rightarrow> fin_row \<Rightarrow> fin_row" where
  "highlight_row selectedId row =
     row\<lparr>selected := (case row_transaction_id row of
                         None \<Rightarrow> False
                       | Some i \<Rightarrow> selectedId = Some i)\<rparr>"

definition highlightFinanceSelection :: "'n state \<Rightarrow> 'n state" where
  "highlightFinanceSelection st =
     st\<lparr>income_body := map_option (map (highlight_row (finance_selectedId st))) (income_body st),
        expense_body := map_option (map (highlight_row (finance_selectedId st))) (expense_body st)\<rparr>"

text \<open>
  The rows of a table body carry the highlight of a selection: a row is marked selected
  exactly when it belongs to a transaction and that transaction is the selected one.
\<close>

definition highlight_matches :: "string option \<Rightarrow> fin_row list \<Rightarrow> bool" where
  "highlight_matches selectedId rows =
     list_all (\<lambda>row. selected row = (case row_transaction_id row of
                                         None \<Rightarrow> False
                                       | Some i \<Rightarrow> selectedId = Some i)) rows"

text \<open>
  \<^verbatim>\<open>
  function prepareFinanceForm(transaction) {
    const form = document.getElementById('finance-duplicate-form');
    if (!form) { return; }
    form.source_transaction_id.value = transaction.transaction_id;
    form.description.value = transaction.description;
    form.category.value = transaction.category;
    form.amount.value = transaction.amount;
    form.occurred_on.value = transaction.occurred_on;
    form.transaction_type.value = transaction.transaction_type;
    form.metadata.value = Object.keys(transaction.metadata || {}).length
      ? JSON.stringify(transaction.metadata, null, 2)
      : '';
    state.finance.selectedId = transaction.transaction_id;
    updateFinanceSelectionSummary(transaction);
    highlightFinanceSelection();
  }
  \<close>
\<close>

definition prepareFinanceForm :: "'n platform \<Rightarrow> 'n transaction \<Rightarrow> 'n state \<Rightarrow> 'n state" where
  "prepareFinanceForm P transaction st =
     (case finance_form st of
        None \<Rightarrow> st
      | Some form \<Rightarrow>
          highlightFinanceSelection
            (updateFinanceSelectionSummary (Some transaction)
               (st\<lparr>finance_form :=
                      Some \<lparr>source_transaction_id = transaction_id transaction,
                            form_description = description transaction,
                            form_category = category transaction,
                            form_amount = number_text P (amount transaction),
                            form_occurred_on = occurred_on transaction,
                            form_transaction_type = transaction_type transaction,
                            form_metadata =
                              (if metadata transaction = [] then []
                               else stringify_pretty P (JObj (metadata transaction)))\<rparr>,
                    finance_selectedId := Some (transaction_id transaction)\<rparr>)))"

text \<open>
  \<^verbatim>\<open>
  function clearFinanceSelection() {
    const form = document.getElementById('finance-duplicate-form');
    if (!form) { return; }
    form.reset();
    form.source_transaction_id.value = '';
    state.finance.selectedId = null;
    updateFinanceSelectionSummary(null);
    highlightFinanceSelection();
  }
  \<close>
  \<^verbatim>\<open>form.reset()\<close> restores the values of the markup, \<open>finance_form_default\<close>.
\<close>

definition clearFinanceSelection :: "'n state \<Rightarrow> 'n state" where
  "clearFinanceSelection st =
     (case finance_form st of
        None \<Rightarrow> st
      | Some form \<Rightarrow>
          highlightFinanceSelection
            (updateFinanceSelectionSummary None
               (st\<lparr>finance_form := Some ((finance_form_default st)\<lparr>source_transaction_id := []\<rparr>),
                    finance_selectedId := None\<rparr>)))"

text \<open>
  The click listener that \<^verbatim>\<open>bindFinanceDuplicateButtons\<close> installs on a duplicate button,
  for the button whose \<^verbatim>\<open>data-transaction\<close> attribute is \<open>transactionId\<close>:
  \<^verbatim>\<open>
      const transaction = findFinanceTransaction(button.dataset.transaction);
      if (transaction) { prepareFinanceForm(transaction); }
  \<close>
\<close>

definition duplicate_button_click :: "'n platform \<Rightarrow> string \<Rightarrow> 'n state \<Rightarrow> 'n state" where
  "duplicate_button_click P transactionId st =
     (case findFinanceTransaction st transactionId of
        None \<Rightarrow> st
      | Some transaction \<Rightarrow> prepareFinanceForm P transaction st)"

text \<open>Writing to the finance output area, under the guard \<^verbatim>\<open>if (output)\<close>.\<close>

definition write_finance_output :: "string \<Rightarrow> 'n state \<Rightarrow> 'n state" where
  "write_finance_output txt st =
     (case finance_output st of
        None \<Rightarrow> st
      | Some old \<Rightarrow> st\<lparr>finance_output := Some txt\<rparr>)"

text \<open>
  \<^verbatim>\<open>
  async function loadFinanceTransactions() {
    try {
      const snapshot = await safeJsonFetch('/finance/transactions');
      renderFinanceTables(snapshot);
    } catch (error) {
      const output = document.getElementById('finance-output');
      if (output) { output.textContent = `Failed to load finance data: ${error.message}`; }
    }
  }
  \<close>
\<close>

definition loadFinanceTransactions_request :: request where
  "loadFinanceTransactions_request =
     \<lparr>url = ''/finance/transactions'', http_method = ''GET'', form_data = []\<rparr>"

definition loadFinanceTransactions_response ::
  "'n platform \<Rightarrow> 'n fetched \<Rightarrow> 'n state \<Rightarrow> 'n state option" where
  "loadFinanceTransactions_response P f st =
     (case safeJsonFetch P f of
        Inl error \<Rightarrow> Some (write_finance_output (''Failed to load finance data: '' @ message error) st)
      | Inr payload \<Rightarrow>
          (case read_snapshot payload of
             None \<Rightarrow> None
           | Some snapshot \<Rightarrow> Some (renderFinanceTables P snapshot st)))"

text \<open>
  \<^verbatim>\<open>
  async function submitFinanceDuplicate(event) {
    event.preventDefault();
    const form = event.target;
    const output = document.getElementById('finance-output');
    if (!form.source_transaction_id.value) {
      if (output) { output.textContent = 'Choose an entry to duplicate before submitting.'; }
      return;
    }
    const formData = new FormData(form);
    try {
      const payload = await safeJsonFetch('/finance/duplicate', { method: 'POST', body: formData });
      renderFinanceTables(payload.snapshot);
      if (output) { output.textContent = JSON.stringify(payload.transaction, null, 2); }
      appendLog(`Duplicated transaction ${form.source_transaction_id.value}.`);
    } catch (error) {
      if (output) { output.textContent = `Duplication failed: ${error.message}`; }
    }
  }
  \<close>
  The form is the duplicate form of the page; without it no submit event arrives. The
  first part returns the request it sends, if any.
\<close>

definition finance_form_entries :: "finance_form \<Rightarrow> (string \<times> string) list" where
  "finance_form_entries form =
     [(''source_transaction_id'', source_transaction_id form),
      (''description'', form_description form),
      (''category'', form_category form),
      (''amount'', form_amount form),
      (''occurred_on'', form_occurred_on form),
      (''transaction_type'', form_transaction_type form),
      (''metadata'', form_metadata form)]"

definition submitFinanceDuplicate_request :: "'n state \<Rightarrow> 'n state \<times> request option" where
  "submitFinanceDuplicate_request st =
     (case finance_form st of
        None \<Rightarrow> (st, None)
      | Some form \<Rightarrow>
          if source_transaction_id form = []
          then (write_finance_output ''Choose an entry to duplicate before submitting.'' st, None)
          else (st, Some \<lparr>url = ''/finance/duplicate'', http_method = ''POST'',
                          form_data = finance_form_entries form\<rparr>))"

definition submitFinanceDuplicate_response ::
  "'n platform \<Rightarrow> string \<Rightarrow> 'n fetched \<Rightarrow> 'n state \<Rightarrow> 'n state option" where
  "submitFinanceDuplicate_response P ts f st =
     (case finance_form st of
        None \<Rightarrow> Some st
      | Some form \<Rightarrow>
          (case safeJsonFetch P f of
             Inl error \<Rightarrow> Some (write_finance_output (''Duplication failed: '' @ message error) st)
           | Inr payload \<Rightarrow>
               (case read_duplicate payload of
                  None \<Rightarrow> None
                | Some (transaction, snapshot) \<Rightarrow>
                    Some (appendLog ts
                            (''Duplicated transaction '' @ source_transaction_id form @ ''.'')
                            (write_finance_output (stringify_pretty P transaction)
                               (renderFinanceTables P snapshot st))))))"

section \<open>The page as a transition system\<close>

text \<open>
  Everything that makes a handler of the script run: an interaction of the operator, or
  the answer to a request. Submitting one of the plain forms changes nothing until its
  answer arrives. \<open>step\<close> runs the handler; an error that escapes a listener is reported
  by the browser and the state stays as the listener left it. \<open>None\<close> is an answer
  outside the interface contract.
\<close>

datatype 'n event =
    LeafletCreated "'n json"
  | LeafletEdited "(string \<times> 'n json) list"
  | LeafletDeleted
  | OverlayComplete "'n shape"
  | MapProviderChanged string
  | RouteAnswered "'n fetched"
  | UploadAnswered "'n fetched"
  | ClassificationAnswered "'n fetched"
  | ComparisonAnswered "'n fetched"
  | AnnotationAnswered "'n fetched"
  | SurveyDaysAnswered "'n fetched"
  | SurveyButtonClicked nat
  | FinanceTransactionsAnswered "'n fetched"
  | DuplicateButtonClicked string
  | FinanceDuplicateSubmitted
  | FinanceDuplicateAnswered "'n fetched"
  | ClearSelectionClicked
  | ProfileButtonClicked

fun step :: "'n platform \<Rightarrow> string \<Rightarrow> 'n event \<Rightarrow> 'n state \<Rightarrow> 'n state option" where
  "step P ts (LeafletCreated g) st = Some (leaflet_created P ts g st)"
| "step P ts (LeafletEdited layers) st = Some (leaflet_edited P layers st)"
| "step P ts LeafletDeleted st = Some (leaflet_deleted P ts st)"
| "step P ts (OverlayComplete shape) st = Some (fst (overlaycomplete P ts shape st))"
| "step P ts (MapProviderChanged provider) st = Some (toggleMap ts provider st)"
| "step P ts (RouteAnswered f) st = Some (submitRoute_response P f st)"
| "step P ts (UploadAnswered f) st = Some (submitUpload_response P f st)"
| "step P ts (ClassificationAnswered f) st = Some (runClassification_response P f st)"
| "step P ts (ComparisonAnswered f) st = Some (submitComparison_response P f st)"
| "step P ts (AnnotationAnswered f) st = Some (fst (submitAnnotation_response P f st))"
| "step P ts (SurveyDaysAnswered f) st = loadSurveyDays_response P ts f st"
| "step P ts (SurveyButtonClicked i) st = Some (fst (survey_button_click P ts i st))"
| "step P ts (FinanceTransactionsAnswered f) st = loadFinanceTransactions_response P f st"
| "step P ts (DuplicateButtonClicked i) st = Some (duplicate_button_click P i st)"
| "step P ts FinanceDuplicateSubmitted st = Some (fst (submitFinanceDuplicate_request st))"
| "step P ts (FinanceDuplicateAnswered f) st = submitFinanceDuplicate_response P ts f st"
| "step P ts ClearSelectionClicked st = Some (clearFinanceSelection st)"
| "step P ts ProfileButtonClicked st = Some (profile_click st)"


section \<open>A sample page\<close>

text \<open>
  A page with every optional element present, as the script finds it at start, and a
  few documents of the backend; the worked examples below run the handlers on them.
\<close>

definition blank_form :: finance_form where
  "blank_form =
     \<lparr>source_transaction_id = [], form_description = [], form_category = [],
      form_amount = [], form_occurred_on = [], form_transaction_type = ''expense'',
      form_metadata = []\<rparr>"

definition sample_page :: "nat state" where
  "sample_page =
     \<lparr>activeMap = ''osm'', drawnGeoJson = None, leaflet_ready = True, leaflet_overlay = [],
      google_ready = True, google_polygon = None, google_overlay = None,
      surveyCaptures = [], finance_snapshot = \<lparr>income = [], expenses = []\<rparr>,
      finance_selectedId = None, log_text = [], area_geojson_value = [],
      leaflet_hidden = False, google_hidden = True, route_output = [], upload_output = [],
      classify_output = [], comparison_output = [], annotation_output = [],
      survey_days = [], base_options = [], target_options = [], survey_summary = [],
      point_cloud_link = [], asset_table = [], income_body = Some [], expense_body = Some [],
      finance_form = Some blank_form, finance_form_default = blank_form,
      finance_selection_summary = Some [], finance_output = Some [],
      profile_expanded = False, profile_menu_open = False\<rparr>"


definition sample_capture :: "nat capture" where
  "sample_capture =
     \<lparr>capture_id = ''cap-1'', name = ''Quarry'', captured_on = ''2024-05-01'', asset_count = 1,
      point_cloud_path = ''/exports/cap-1.ply'',
      overlay = Some [[(0, 0), (2, 0), (2, 1), (0, 0)]],
      assets = [\<lparr>asset_id = ''a-1'', classification = ''stockpile'', volume_cubic_m = 12,
                 annotations = []\<rparr>]\<rparr>"

definition sample_transaction :: "string \<Rightarrow> nat transaction" where
  "sample_transaction i =
     \<lparr>transaction_id = i, description = ''Battery pack'', category = ''equipment'',
      amount = 1250, occurred_on = ''2024-05-02'', transaction_type = ''expense'',
      metadata = []\<rparr>"

definition sample_transaction_json :: "string \<Rightarrow> nat json" where
  "sample_transaction_json i =
     JObj [(''transaction_id'', JStr i), (''description'', JStr ''Battery pack''),
           (''category'', JStr ''equipment''), (''amount'', JNum 1250),
           (''occurred_on'', JStr ''2024-05-02''), (''transaction_type'', JStr ''expense'')]"



definition sample_finance_answer :: "nat fetched" where
  "sample_finance_answer =
     Responded \<lparr>status = 200,
                body = Some (JObj [(''income'', JArr []),
                                   (''expenses'', JArr [sample_transaction_json ''tx-1'',
                                                        sample_transaction_json ''tx-2''])])\<rparr>"

section \<open>Properties of the network client\<close>

lemma stringify_object_nonempty: "stringify P (JObj kvs) \<noteq> []"
  by (cases kvs) (simp_all add: stringify_def)

lemma ok_body_update: "ok (r\<lparr>body := b\<rparr>) = ok r"
  by (simp add: ok_def)

text \<open>
  C10. A response with a success status whose body cannot be parsed resolves with the
  empty object. More generally an unparseable body is handled exactly as the body
  \<^verbatim>\<open>{}\<close> would be, so that whether \<open>safeJsonFetch\<close> throws is decided by the status alone.
\<close>

theorem safeJsonFetch_unparseable_body:
  assumes "body r = None"
  shows "(ok r \<longrightarrow> safeJsonFetch P (Responded r) = Inr (JObj []))
       \<and> safeJsonFetch P (Responded r) = safeJsonFetch P (Responded (r\<lparr>body := Some (JObj [])\<rparr>))
       \<and> (isl (safeJsonFetch P (Responded r)) \<longleftrightarrow> \<not> ok r)"
  using assms by (simp add: safeJsonFetch_def ok_body_update Let_def)

theorem safeJsonFetch_unparseable_body_witness:
  "safeJsonFetch nat_platform (Responded \<lparr>status = 200, body = None\<rparr>) = Inr (JObj [])
   \<and> isl (safeJsonFetch nat_platform (Responded \<lparr>status = 502, body = None\<rparr>))"
proof -
  have a: "body \<lparr>status = 200, body = (None :: nat json option)\<rparr> = None" by simp
  have b: "body \<lparr>status = 502, body = (None :: nat json option)\<rparr> = None" by simp
  have "safeJsonFetch nat_platform (Responded \<lparr>status = 200, body = None\<rparr>) = Inr (JObj [])"
    using safeJsonFetch_unparseable_body [OF a, of nat_platform, THEN conjunct1]
    by (simp add: ok_def)
  moreover have "isl (safeJsonFetch nat_platform (Responded \<lparr>status = 502, body = None\<rparr>))"
    using safeJsonFetch_unparseable_body [OF b, of nat_platform, THEN conjunct2, THEN conjunct2]
    by (simp add: ok_def)
  ultimately show ?thesis by simp
qed

text \<open>
  What \<open>safeJsonFetch\<close> throws on a response without success status, by cases of the
  parsed body.
\<close>

lemma safeJsonFetch_failure_object:
  assumes "\<not> ok r" and "body r = Some (JObj kvs)"
  shows "safeJsonFetch P (Responded r) =
           Inl (Error (case map_of kvs ''detail'' of
                         None \<Rightarrow> stringify P (JObj kvs)
                       | Some d \<Rightarrow> if truthy P d then to_text P d else stringify P (JObj kvs)))"
  using assms
  by (cases "map_of kvs ''detail''")
     (simp_all add: safeJsonFetch_def js_or_def stringify_object_nonempty)

text \<open>
  The fallback \<^verbatim>\<open>Request failed with status ...\<close> is never taken: when the body cannot be
  parsed the payload is \<^verbatim>\<open>{}\<close>, whose serialization \<^verbatim>\<open>"{}"\<close> is a non-empty string and so
  becomes the message.
\<close>

lemma safeJsonFetch_failure_unparseable:
  assumes "\<not> ok r" and "body r = None"
  shows "safeJsonFetch P (Responded r) = Inl (Error ''{}'')"
  using assms by (simp add: safeJsonFetch_def js_or_def stringify_def)

text \<open>
  C4, as amended. For a response without success status whose body parses to a JSON
  object, \<open>safeJsonFetch\<close> throws an \<open>Error\<close> whose message is the \<^verbatim>\<open>detail\<close> string of the
  body when that field is present and not empty; when the field is absent, or present
  but falsy (the empty string, \<^verbatim>\<open>null\<close>, \<^verbatim>\<open>false\<close>, zero), the message is the raw JSON of
  the body.
\<close>

theorem safeJsonFetch_failure_message:
  assumes "\<not> ok r" and "body r = Some (JObj kvs)"
  shows "(\<forall>d. map_of kvs ''detail'' = Some (JStr d) \<and> d \<noteq> []
              \<longrightarrow> safeJsonFetch P (Responded r) = Inl (Error d))
       \<and> (map_of kvs ''detail'' = None
              \<longrightarrow> safeJsonFetch P (Responded r) = Inl (Error (stringify P (JObj kvs))))
       \<and> (\<not> truthy_val P (map_of kvs ''detail'')
              \<longrightarrow> safeJsonFetch P (Responded r) = Inl (Error (stringify P (JObj kvs))))"
proof (intro conjI allI impI)
  fix d assume "map_of kvs ''detail'' = Some (JStr d) \<and> d \<noteq> []"
  then show "safeJsonFetch P (Responded r) = Inl (Error d)"
    using safeJsonFetch_failure_object [OF assms, of P] by simp
next
  assume "map_of kvs ''detail'' = None"
  then show "safeJsonFetch P (Responded r) = Inl (Error (stringify P (JObj kvs)))"
    using safeJsonFetch_failure_object [OF assms, of P] by simp
next
  assume "\<not> truthy_val P (map_of kvs ''detail'')"
  then show "safeJsonFetch P (Responded r) = Inl (Error (stringify P (JObj kvs)))"
    using safeJsonFetch_failure_object [OF assms, of P]
    by (cases "map_of kvs ''detail''") simp_all
qed

theorem safeJsonFetch_failure_message_witness:
  "safeJsonFetch nat_platform
     (Responded \<lparr>status = 404, body = Some (JObj [(''detail'', JStr ''Capture not found'')])\<rparr>)
   = Inl (Error ''Capture not found'')
   \<and> safeJsonFetch nat_platform
       (Responded \<lparr>status = 500, body = Some (JObj [(''error'', JStr ''boom'')])\<rparr>)
     = Inl (Error (''{'' @ quote ''error'' @ '':'' @ quote ''boom'' @ ''}''))"
proof -
  have a: "\<not> ok \<lparr>status = 404, body = Some (JObj [(''detail'', JStr ''Capture not found'' :: nat json)])\<rparr>"
    by (simp add: ok_def)
  have b: "\<not> ok \<lparr>status = 500, body = Some (JObj [(''error'', JStr ''boom'' :: nat json)])\<rparr>"
    by (simp add: ok_def)
  have "safeJsonFetch nat_platform
          (Responded \<lparr>status = 404, body = Some (JObj [(''detail'', JStr ''Capture not found'')])\<rparr>)
        = Inl (Error ''Capture not found'')"
    using safeJsonFetch_failure_message [OF a, of "[(''detail'', JStr ''Capture not found'')]"
            nat_platform, THEN conjunct1]
    by simp
  moreover
  have "safeJsonFetch nat_platform
          (Responded \<lparr>status = 500, body = Some (JObj [(''error'', JStr ''boom'')])\<rparr>)
        = Inl (Error (''{'' @ quote ''error'' @ '':'' @ quote ''boom'' @ ''}''))"
    using safeJsonFetch_failure_message [OF b, of "[(''error'', JStr ''boom'')]"
            nat_platform, THEN conjunct2, THEN conjunct1]
    by (simp add: stringify_def)
  ultimately show ?thesis by simp
qed

text \<open>
  The claim as it was stated fails on two responses. A body \<^verbatim>\<open>{"detail": ""}\<close> under
  status 400 has the field, yet the message is the raw JSON and not the (empty) detail
  string; and a body that is not JSON under status 502 gives the message \<^verbatim>\<open>{}\<close>, not the
  status.
\<close>

theorem safeJsonFetch_failure_message_counterexample:
  "safeJsonFetch nat_platform
     (Responded \<lparr>status = 400, body = Some (JObj [(''detail'', JStr [])])\<rparr>)
   = Inl (Error (''{'' @ quote ''detail'' @ '':'' @ quote [] @ ''}''))
   \<and> safeJsonFetch nat_platform
       (Responded \<lparr>status = 400, body = Some (JObj [(''detail'', JStr [])])\<rparr>)
     \<noteq> Inl (Error [])
   \<and> safeJsonFetch nat_platform (Responded \<lparr>status = 502, body = None\<rparr>) = Inl (Error ''{}'')
   \<and> safeJsonFetch nat_platform (Responded \<lparr>status = 502, body = None\<rparr>)
     \<noteq> Inl (Error (''Request failed with status '' @ decimal 502))"
  by (simp add: safeJsonFetch_def ok_def js_or_def stringify_def quote_def)

section \<open>Properties of the map adapters and of route planning\<close>

text \<open>
  C1. Whatever the two corners of the bounds are, also when they give a rectangle without
  width or height, a rectangle drawn on the Google adapter yields a polygon with one
  ring of exactly five positions, south-west, south-east, north-east, north-west and
  south-west again, and hands it to \<open>setDrawnGeometry\<close>: it becomes the current geometry
  and its serialization the value of the form field.
\<close>

theorem rectangle_draw_closed_ring:
  "overlaycomplete P ts (RectangleShape sw ne) st =
     (setDrawnGeometry P ts (Some (polygon_geojson (rectangle_ring sw ne)))
        (st\<lparr>google_polygon := Some (RectangleShape sw ne)\<rparr>), None)
   \<and> rectangle_ring sw ne =
       [position (lng sw) (lat sw), position (lng ne) (lat sw), position (lng ne) (lat ne),
        position (lng sw) (lat ne), position (lng sw) (lat sw)]
   \<and> length (rectangle_ring sw ne) = 5
   \<and> last (rectangle_ring sw ne) = hd (rectangle_ring sw ne)
   \<and> drawnGeoJson (fst (overlaycomplete P ts (RectangleShape sw ne) st))
       = Some (polygon_geojson (rectangle_ring sw ne))
   \<and> area_geojson_value (fst (overlaycomplete P ts (RectangleShape sw ne) st))
       = stringify P (polygon_geojson (rectangle_ring sw ne))"
  by (simp add: overlaycomplete_def rectangle_ring_def setDrawnGeometry_def
        appendLog_def polygon_geojson_def)

text \<open>The same on bounds without width: both corners on the meridian 2.\<close>

theorem rectangle_draw_closed_ring_witness:
  "drawnGeoJson (fst (overlaycomplete nat_platform ''t''
      (RectangleShape \<lparr>lat = 1, lng = 2\<rparr> \<lparr>lat = 3, lng = 2\<rparr>) sample_page))
   = Some (JObj [(''type'', JStr ''Polygon''),
                 (''coordinates'', JArr [JArr [JArr [JNum 2, JNum 1], JArr [JNum 2, JNum 1],
                    JArr [JNum 2, JNum 3], JArr [JNum 2, JNum 3], JArr [JNum 2, JNum 1]]])])"
  using rectangle_draw_closed_ring [of nat_platform "''t''" "\<lparr>lat = 1, lng = 2\<rparr>"
          "\<lparr>lat = 3, lng = 2\<rparr>" sample_page,
          THEN conjunct2, THEN conjunct2, THEN conjunct2, THEN conjunct2, THEN conjunct1]
  by (simp add: polygon_geojson_def position_def rectangle_ring_def)

section \<open>Properties of the form controllers\<close>

lemma getAll_formdata_set: "formdata_getAll (formdata_set k v es) k = [v]"
  by (induction es) (auto simp: formdata_getAll_def filter_empty_conv)

lemma get_formdata_set: "formdata_get (formdata_set k v es) k = Some v"
  by (induction es) (auto simp: formdata_get_def)

lemma others_formdata_set:
  "filter (\<lambda>x. fst x \<noteq> k) (formdata_set k v es) = filter (\<lambda>x. fst x \<noteq> k) es"
  by (induction es) auto

text \<open>
  C2. When the route form is submitted while a geometry (a GeoJSON object) is set, the
  request carries exactly one \<^verbatim>\<open>area_geojson\<close> entry, the serialization of the geometry
  held at that moment, whatever the entries of the form were; the other entries of the
  form are sent as they are.
\<close>

theorem submitRoute_sends_current_geometry:
  assumes "drawnGeoJson st = Some (JObj kvs)"
  shows "formdata_getAll (form_data (submitRoute_request P entries st)) ''area_geojson''
           = [stringify P (JObj kvs)]
       \<and> formdata_get (form_data (submitRoute_request P entries st)) ''area_geojson''
           = Some (stringify P (JObj kvs))
       \<and> filter (\<lambda>x. fst x \<noteq> ''area_geojson'') (form_data (submitRoute_request P entries st))
           = filter (\<lambda>x. fst x \<noteq> ''area_geojson'') entries"
  using assms
  by (simp add: submitRoute_request_def getAll_formdata_set get_formdata_set others_formdata_set)

theorem submitRoute_sends_current_geometry_witness:
  "formdata_getAll
     (form_data (submitRoute_request nat_platform
        [(''altitude'', ''60''), (''area_geojson'', ''stale'')]
        (sample_page\<lparr>drawnGeoJson := Some (JObj [(''type'', JStr ''Polygon'')])\<rparr>)))
     ''area_geojson''
   = [''{'' @ quote ''type'' @ '':'' @ quote ''Polygon'' @ ''}'']"
proof -
  have "drawnGeoJson (sample_page\<lparr>drawnGeoJson := Some (JObj [(''type'', JStr ''Polygon'')])\<rparr>)
          = Some (JObj [(''type'', JStr ''Polygon'' :: nat json)])"
    by simp
  from submitRoute_sends_current_geometry [OF this, of nat_platform
         "[(''altitude'', ''60''), (''area_geojson'', ''stale'')]", THEN conjunct1]
  show ?thesis by (simp add: stringify_def)
qed

section \<open>Properties of the survey store\<close>

text \<open>
  C3. When the fetch of \<open>loadSurveyDays\<close> fails (the request is rejected or the status
  is not a success), the handler only puts one line in front of the log, the timestamp
  followed by the failure message: the stored captures, the rendered list and everything
  else stay as they were.
\<close>

theorem loadSurveyDays_failure_keeps_store:
  assumes "safeJsonFetch P f = Inl error"
  shows "\<exists>st'. loadSurveyDays_response P ts f st = Some st'
           \<and> st' = st\<lparr>log_text := ts @ '': Failed to load survey days: '' @ message error
                                   @ [CHR 0x0A] @ log_text st\<rparr>
           \<and> surveyCaptures st' = surveyCaptures st
           \<and> survey_days st' = survey_days st
           \<and> base_options st' = base_options st
           \<and> target_options st' = target_options st"
  using assms by (simp add: loadSurveyDays_response_def appendLog_def)

theorem loadSurveyDays_failure_keeps_store_witness:
  "loadSurveyDays_response nat_platform ''t''
     (Responded \<lparr>status = 503, body = Some (JObj [(''detail'', JStr ''backend down'')])\<rparr>)
     (sample_page\<lparr>surveyCaptures := [sample_capture],
                   survey_days := [survey_item_of sample_capture]\<rparr>)
   = Some (sample_page\<lparr>surveyCaptures := [sample_capture],
                         survey_days := [survey_item_of sample_capture],
                         log_text := ''t: Failed to load survey days: backend down'' @ [CHR 0x0A]\<rparr>)"
proof -
  have "safeJsonFetch nat_platform
          (Responded \<lparr>status = 503, body = Some (JObj [(''detail'', JStr ''backend down'')])\<rparr>)
        = Inl (Error ''backend down'')"
    by (simp add: safeJsonFetch_def ok_def js_or_def)
  from loadSurveyDays_failure_keeps_store [OF this, of "''t''"
         "sample_page\<lparr>surveyCaptures := [sample_capture],
                       survey_days := [survey_item_of sample_capture]\<rparr>"]
  obtain st' where
    "loadSurveyDays_response nat_platform ''t''
       (Responded \<lparr>status = 503, body = Some (JObj [(''detail'', JStr ''backend down'')])\<rparr>)
       (sample_page\<lparr>surveyCaptures := [sample_capture],
                     survey_days := [survey_item_of sample_capture]\<rparr>) = Some st'"
    and "st' = sample_page\<lparr>surveyCaptures := [sample_capture],
                 survey_days := [survey_item_of sample_capture],
                 log_text := ''t: Failed to load survey days: '' @ message (Error ''backend down'')
                   @ [CHR 0x0A] @ log_text (sample_page\<lparr>surveyCaptures := [sample_capture],
                       survey_days := [survey_item_of sample_capture]\<rparr>)\<rparr>"
    by auto
  then show ?thesis by (simp add: sample_page_def)
qed

section \<open>What the handlers leave alone\<close>

lemma setDrawnGeometry_frame [simp]:
  "finance_selectedId (setDrawnGeometry P ts g st) = finance_selectedId st"
  "surveyCaptures (setDrawnGeometry P ts g st) = surveyCaptures st"
  "survey_days (setDrawnGeometry P ts g st) = survey_days st"
  by (simp_all add: setDrawnGeometry_def appendLog_def)

lemma leaflet_edited_frame [simp]:
  "finance_selectedId (leaflet_edited P layers st) = finance_selectedId st"
  "surveyCaptures (leaflet_edited P layers st) = surveyCaptures st"
  "survey_days (leaflet_edited P layers st) = survey_days st"
  by (induction P layers st rule: leaflet_edited.induct) simp_all

lemma overlaycomplete_frame [simp]:
  "finance_selectedId (fst (overlaycomplete P ts shape st)) = finance_selectedId st"
  "surveyCaptures (fst (overlaycomplete P ts shape st)) = surveyCaptures st"
  "survey_days (fst (overlaycomplete P ts shape st)) = survey_days st"
  by (simp_all add: overlaycomplete_def Let_def split: shape.splits sum.splits)

lemma toggleMap_frame [simp]:
  "finance_selectedId (toggleMap ts p st) = finance_selectedId st"
  "surveyCaptures (toggleMap ts p st) = surveyCaptures st"
  "survey_days (toggleMap ts p st) = survey_days st"
  by (simp_all add: toggleMap_def appendLog_def)

lemma plain_forms_frame [simp]:
  "finance_selectedId (submitRoute_response P f st) = finance_selectedId st"
  "surveyCaptures (submitRoute_response P f st) = surveyCaptures st"
  "survey_days (submitRoute_response P f st) = survey_days st"
  "finance_selectedId (submitUpload_response P f st) = finance_selectedId st"
  "surveyCaptures (submitUpload_response P f st) = surveyCaptures st"
  "survey_days (submitUpload_response P f st) = survey_days st"
  "finance_selectedId (runClassification_response P f st) = finance_selectedId st"
  "surveyCaptures (runClassification_response P f st) = surveyCaptures st"
  "survey_days (runClassification_response P f st) = survey_days st"
  "finance_selectedId (submitComparison_response P f st) = finance_selectedId st"
  "surveyCaptures (submitComparison_response P f st) = surveyCaptures st"
  "survey_days (submitComparison_response P f st) = survey_days st"
  "finance_selectedId (fst (submitAnnotation_response P f st)) = finance_selectedId st"
  "surveyCaptures (fst (submitAnnotation_response P f st)) = surveyCaptures st"
  "survey_days (fst (submitAnnotation_response P f st)) = survey_days st"
  by (simp_all add: submitRoute_response_def submitUpload_response_def
        runClassification_response_def submitComparison_response_def
        submitAnnotation_response_def split: sum.splits)

lemma showSurveyDetails_frame [simp]:
  "finance_selectedId (fst (showSurveyDetails P ts c st)) = finance_selectedId st"
  "surveyCaptures (fst (showSurveyDetails P ts c st)) = surveyCaptures st"
  "survey_days (fst (showSurveyDetails P ts c st)) = survey_days st"
  by (simp_all add: showSurveyDetails_def updateMapOverlay_def appendLog_def Let_def
        split: option.splits list.splits)

lemma survey_button_click_frame [simp]:
  "finance_selectedId (fst (survey_button_click P ts i st)) = finance_selectedId st"
  "surveyCaptures (fst (survey_button_click P ts i st)) = surveyCaptures st"
  "survey_days (fst (survey_button_click P ts i st)) = survey_days st"
  by (simp_all add: survey_button_click_def)

lemma renderFinanceTables_frame [simp]:
  "finance_selectedId (renderFinanceTables P snap st) = finance_selectedId st"
  "surveyCaptures (renderFinanceTables P snap st) = surveyCaptures st"
  "survey_days (renderFinanceTables P snap st) = survey_days st"
  by (simp_all add: renderFinanceTables_def Let_def)

lemma write_finance_output_frame [simp]:
  "finance_selectedId (write_finance_output txt st) = finance_selectedId st"
  "surveyCaptures (write_finance_output txt st) = surveyCaptures st"
  "survey_days (write_finance_output txt st) = survey_days st"
  by (simp_all add: write_finance_output_def split: option.splits)

lemma finance_selection_frame [simp]:
  "surveyCaptures (highlightFinanceSelection st) = surveyCaptures st"
  "survey_days (highlightFinanceSelection st) = survey_days st"
  "finance_selectedId (highlightFinanceSelection st) = finance_selectedId st"
  "surveyCaptures (updateFinanceSelectionSummary t st) = surveyCaptures st"
  "survey_days (updateFinanceSelectionSummary t st) = survey_days st"
  "finance_selectedId (updateFinanceSelectionSummary t st) = finance_selectedId st"
  by (simp_all add: highlightFinanceSelection_def updateFinanceSelectionSummary_def
        split: option.splits)

lemma finance_clicks_frame [simp]:
  "surveyCaptures (prepareFinanceForm P t st) = surveyCaptures st"
  "survey_days (prepareFinanceForm P t st) = survey_days st"
  "surveyCaptures (clearFinanceSelection st) = surveyCaptures st"
  "survey_days (clearFinanceSelection st) = survey_days st"
  "surveyCaptures (duplicate_button_click P i st) = surveyCaptures st"
  "survey_days (duplicate_button_click P i st) = survey_days st"
  by (simp_all add: prepareFinanceForm_def clearFinanceSelection_def duplicate_button_click_def
        split: option.splits)

lemma submitFinanceDuplicate_request_frame [simp]:
  "finance_selectedId (fst (submitFinanceDuplicate_request st)) = finance_selectedId st"
  "surveyCaptures (fst (submitFinanceDuplicate_request st)) = surveyCaptures st"
  "survey_days (fst (submitFinanceDuplicate_request st)) = survey_days st"
  by (simp_all add: submitFinanceDuplicate_request_def split: option.splits)

lemma answered_frame:
  "loadFinanceTransactions_response P f st = Some st' \<Longrightarrow>
     finance_selectedId st' = finance_selectedId st \<and> surveyCaptures st' = surveyCaptures st
     \<and> survey_days st' = survey_days st"
  "submitFinanceDuplicate_response P ts f st = Some st' \<Longrightarrow>
     finance_selectedId st' = finance_selectedId st \<and> surveyCaptures st' = surveyCaptures st
     \<and> survey_days st' = survey_days st"
  "loadSurveyDays_response P ts f st = Some st' \<Longrightarrow> finance_selectedId st' = finance_selectedId st"
  by (auto simp: loadFinanceTransactions_response_def submitFinanceDuplicate_response_def
        loadSurveyDays_response_def appendLog_def renderSurveyList_def populateSurveySelects_def
        Let_def split: sum.splits option.splits prod.splits)

lemma profile_click_frame [simp]:
  "finance_selectedId (profile_click st) = finance_selectedId st"
  "surveyCaptures (profile_click st) = surveyCaptures st"
  "survey_days (profile_click st) = survey_days st"
  by (simp_all add: profile_click_def)

lemma step_keeps_selection:
  assumes "step P ts e st = Some st'"
    and "\<forall>i. e \<noteq> DuplicateButtonClicked i" and "e \<noteq> ClearSelectionClicked"
  shows "finance_selectedId st' = finance_selectedId st"
  using assms
  by (cases e) (auto simp: leaflet_created_def leaflet_deleted_def dest: answered_frame)





lemma renderRows_highlight: "highlight_matches sel (renderRows P sel entries)"
  by (simp add: highlight_matches_def renderRows_def empty_row_def transaction_row_def
        list_all_iff)

lemma renderFinanceTables_bodies:
  assumes "income_body st \<noteq> None" and "expense_body st \<noteq> None"
  shows "income_body (renderFinanceTables P snapshot st)
           = Some (renderRows P (finance_selectedId st) (income snapshot))"
    and "expense_body (renderFinanceTables P snapshot st)
           = Some (renderRows P (finance_selectedId st) (expenses snapshot))"
  using assms by (auto simp: renderFinanceTables_def Let_def)

lemma renderFinanceTables_bodies_kept:
  "(income_body (renderFinanceTables P snapshot st) = None) = (income_body st = None)"
  "(expense_body (renderFinanceTables P snapshot st) = None) = (expense_body st = None)"
  by (auto simp: renderFinanceTables_def Let_def)

section \<open>Properties of the finance store\<close>

text \<open>
  C5. When the duplicate form is submitted with an empty \<^verbatim>\<open>source_transaction_id\<close>, no
  request is sent, the guidance message is written to the finance output area (where
  the page has one), and nothing else changes: the stored snapshot, the selection and
  the tables are as before.
\<close>

theorem submitFinanceDuplicate_refuses_without_source:
  assumes "finance_form st = Some form" and "source_transaction_id form = []"
  shows "snd (submitFinanceDuplicate_request st) = None
       \<and> fst (submitFinanceDuplicate_request st)
           = st\<lparr>finance_output :=
                 map_option (\<lambda>old. ''Choose an entry to duplicate before submitting.'')
                   (finance_output st)\<rparr>
       \<and> (finance_output st \<noteq> None \<longrightarrow>
            finance_output (fst (submitFinanceDuplicate_request st))
              = Some ''Choose an entry to duplicate before submitting.'')
       \<and> finance_snapshot (fst (submitFinanceDuplicate_request st)) = finance_snapshot st
       \<and> finance_selectedId (fst (submitFinanceDuplicate_request st)) = finance_selectedId st"
  using assms
  by (cases "finance_output st")
     (simp_all add: submitFinanceDuplicate_request_def write_finance_output_def)

theorem submitFinanceDuplicate_refuses_without_source_witness:
  "submitFinanceDuplicate_request sample_page
     = (sample_page\<lparr>finance_output := Some ''Choose an entry to duplicate before submitting.''\<rparr>,
        None)"
proof -
  have a: "finance_form sample_page = Some blank_form" by (simp add: sample_page_def)
  have b: "source_transaction_id blank_form = []" by (simp add: blank_form_def)
  have c: "finance_output sample_page = Some []" by (simp add: sample_page_def)
  from submitFinanceDuplicate_refuses_without_source [OF a b] c
  show ?thesis by (simp add: prod_eq_iff)
qed

text \<open>
  C6. No handler other than the click on a duplicate button (\<open>prepareFinanceForm\<close>) and
  the click on the clear button (\<open>clearFinanceSelection\<close>) changes the selected id.
  Rendering the finance tables keeps it, and the rows it writes are highlighted exactly
  where the row's transaction is the selected one; so are the rows written after a
  successful duplicate submission, which shows the snapshot of the answer.
\<close>

theorem selection_changes_only_by_select_or_clear:
  "(step P ts e st = Some st' \<and> (\<forall>i. e \<noteq> DuplicateButtonClicked i) \<and> e \<noteq> ClearSelectionClicked
      \<longrightarrow> finance_selectedId st' = finance_selectedId st)
   \<and> finance_selectedId (renderFinanceTables P snapshot st) = finance_selectedId st
   \<and> (income_body st \<noteq> None \<and> expense_body st \<noteq> None \<longrightarrow>
        income_body (renderFinanceTables P snapshot st)
          = Some (renderRows P (finance_selectedId st) (income snapshot))
      \<and> expense_body (renderFinanceTables P snapshot st)
          = Some (renderRows P (finance_selectedId st) (expenses snapshot)))
   \<and> highlight_matches sel (renderRows P sel entries)
   \<and> (\<forall>t \<in> set entries.
        transaction_row P sel t \<in> set (renderRows P sel entries)
        \<and> row_transaction_id (transaction_row P sel t) = Some (transaction_id t)
        \<and> (selected (transaction_row P sel t) \<longleftrightarrow> sel = Some (transaction_id t)))
   \<and> (finance_form st \<noteq> None \<and> income_body st \<noteq> None \<and> expense_body st \<noteq> None
      \<and> safeJsonFetch P f = Inr payload \<and> read_duplicate payload = Some (t', snapshot')
      \<longrightarrow> (\<exists>st''. submitFinanceDuplicate_response P ts f st = Some st''
             \<and> finance_selectedId st'' = finance_selectedId st
             \<and> finance_snapshot st'' = snapshot'
             \<and> income_body st'' = Some (renderRows P (finance_selectedId st) (income snapshot'))
             \<and> expense_body st'' = Some (renderRows P (finance_selectedId st) (expenses snapshot'))))"
proof (intro conjI)
  show "step P ts e st = Some st' \<and> (\<forall>i. e \<noteq> DuplicateButtonClicked i) \<and> e \<noteq> ClearSelectionClicked
          \<longrightarrow> finance_selectedId st' = finance_selectedId st"
    using step_keeps_selection by blast
  show "finance_selectedId (renderFinanceTables P snapshot st) = finance_selectedId st"
    by simp
  show "income_body st \<noteq> None \<and> expense_body st \<noteq> None \<longrightarrow>
        income_body (renderFinanceTables P snapshot st)
          = Some (renderRows P (finance_selectedId st) (income snapshot))
      \<and> expense_body (renderFinanceTables P snapshot st)
          = Some (renderRows P (finance_selectedId st) (expenses snapshot))"
    by (simp add: renderFinanceTables_bodies)
  show "highlight_matches sel (renderRows P sel entries)"
    by (rule renderRows_highlight)
  show "\<forall>t \<in> set entries.
        transaction_row P sel t \<in> set (renderRows P sel entries)
        \<and> row_transaction_id (transaction_row P sel t) = Some (transaction_id t)
        \<and> (selected (transaction_row P sel t) \<longleftrightarrow> sel = Some (transaction_id t))"
    by (auto simp: renderRows_def transaction_row_def)
  show "finance_form st \<noteq> None \<and> income_body st \<noteq> None \<and> expense_body st \<noteq> None
      \<and> safeJsonFetch P f = Inr payload \<and> read_duplicate payload = Some (t', snapshot')
      \<longrightarrow> (\<exists>st''. submitFinanceDuplicate_response P ts f st = Some st''
             \<and> finance_selectedId st'' = finance_selectedId st
             \<and> finance_snapshot st'' = snapshot'
             \<and> income_body st'' = Some (renderRows P (finance_selectedId st) (income snapshot'))
             \<and> expense_body st'' = Some (renderRows P (finance_selectedId st) (expenses snapshot')))"
    by (auto simp: submitFinanceDuplicate_response_def appendLog_def write_finance_output_def
          renderFinanceTables_def Let_def split: option.splits)
qed

text \<open>
  C7. An empty transaction list is rendered as exactly one row, which holds the text
  \<^verbatim>\<open>No entries recorded yet.\<close> and has no duplicate button and no transaction id; this
  holds for the income table and for the expense table.
\<close>

theorem renderRows_empty_placeholder:
  "renderRows P sel [] = [empty_row]
   \<and> length (renderRows P sel []) = 1
   \<and> cells empty_row = [''No entries recorded yet.'']
   \<and> duplicate_button empty_row = None
   \<and> row_transaction_id empty_row = None
   \<and> \<not> selected empty_row
   \<and> (income_body st \<noteq> None \<and> expense_body st \<noteq> None \<and> income snapshot = []
        \<longrightarrow> income_body (renderFinanceTables P snapshot st) = Some [empty_row])
   \<and> (income_body st \<noteq> None \<and> expense_body st \<noteq> None \<and> expenses snapshot = []
        \<longrightarrow> expense_body (renderFinanceTables P snapshot st) = Some [empty_row])"
  by (simp add: renderRows_def empty_row_def renderFinanceTables_def Let_def)

text \<open>
  C9. \<open>findFinanceTransaction\<close> yields \<^verbatim>\<open>null\<close> exactly when no transaction of the current
  snapshot has the id, and otherwise the first transaction with that id in the income
  list followed by the expense list. A click on a duplicate button whose id is not in
  the current snapshot leaves the whole state, with the form, the selection and its
  summary, as it is.
\<close>

theorem findFinanceTransaction_first_or_null:
  "(findFinanceTransaction st i = None
      \<longleftrightarrow> i \<notin> transaction_id ` set (income (finance_snapshot st) @ expenses (finance_snapshot st)))
   \<and> (findFinanceTransaction st i = Some t
      \<longleftrightarrow> (\<exists>k < length (income (finance_snapshot st) @ expenses (finance_snapshot st)).
            (income (finance_snapshot st) @ expenses (finance_snapshot st)) ! k = t
            \<and> transaction_id t = i
            \<and> (\<forall>j < k. transaction_id
                  ((income (finance_snapshot st) @ expenses (finance_snapshot st)) ! j) \<noteq> i)))
   \<and> (i \<notin> transaction_id ` set (income (finance_snapshot st) @ expenses (finance_snapshot st))
      \<longrightarrow> duplicate_button_click P i st = st)"
proof (intro conjI)
  let ?all = "income (finance_snapshot st) @ expenses (finance_snapshot st)"
  show none: "findFinanceTransaction st i = None \<longleftrightarrow> i \<notin> transaction_id ` set ?all"
    by (auto simp: findFinanceTransaction_def find_None_iff)
  show "findFinanceTransaction st i = Some t
      \<longleftrightarrow> (\<exists>k < length ?all. ?all ! k = t \<and> transaction_id t = i
            \<and> (\<forall>j < k. transaction_id (?all ! j) \<noteq> i))"
    unfolding findFinanceTransaction_def find_Some_iff by auto
  show "i \<notin> transaction_id ` set ?all \<longrightarrow> duplicate_button_click P i st = st"
  proof
    assume "i \<notin> transaction_id ` set ?all"
    with none have "findFinanceTransaction st i = None" by blast
    then show "duplicate_button_click P i st = st"
      by (simp add: duplicate_button_click_def)
  qed
qed












lemma read_sample_transaction:
  "read_transaction (sample_transaction_json i) = Some (sample_transaction i)"
  by (simp add: read_transaction_def sample_transaction_json_def sample_transaction_def
        string_field_def number_field_def read_metadata_def)

lemma sample_finance_step:
  "step nat_platform ts (FinanceTransactionsAnswered sample_finance_answer) st
     = Some (renderFinanceTables nat_platform
               \<lparr>income = [], expenses = [sample_transaction ''tx-1'', sample_transaction ''tx-2'']\<rparr>
               st)"
  by (simp add: loadFinanceTransactions_response_def sample_finance_answer_def safeJsonFetch_def
        ok_def read_snapshot_def array_field_def read_sample_transaction)

theorem selection_changes_only_by_select_or_clear_witness:
  "map_option finance_selectedId
     (step nat_platform ''t'' (FinanceTransactionsAnswered sample_finance_answer)
        (sample_page\<lparr>finance_selectedId := Some ''tx-2''\<rparr>))
   = Some (Some ''tx-2'')
   \<and> map_option (map selected)
       (expense_body (renderFinanceTables nat_platform
          \<lparr>income = [], expenses = [sample_transaction ''tx-1'', sample_transaction ''tx-2'']\<rparr>
          (sample_page\<lparr>finance_selectedId := Some ''tx-2''\<rparr>)))
     = Some [False, True]"
proof -
  let ?st = "sample_page\<lparr>finance_selectedId := Some ''tx-2''\<rparr>"
  let ?snap = "\<lparr>income = [], expenses = [sample_transaction ''tx-1'', sample_transaction ''tx-2'']\<rparr>"
  note t = selection_changes_only_by_select_or_clear
             [of nat_platform "''t''" "FinanceTransactionsAnswered sample_finance_answer" ?st
                 "renderFinanceTables nat_platform ?snap ?st" ?snap]
  have "finance_selectedId (renderFinanceTables nat_platform ?snap ?st) = Some ''tx-2''"
    using t [THEN conjunct1] sample_finance_step [of "''t''" ?st] by simp
  then have a: "map_option finance_selectedId
     (step nat_platform ''t'' (FinanceTransactionsAnswered sample_finance_answer) ?st)
       = Some (Some ''tx-2'')"
    unfolding sample_finance_step by simp
  have "expense_body (renderFinanceTables nat_platform ?snap ?st)
          = Some (renderRows nat_platform (finance_selectedId ?st) (expenses ?snap))"
    using t [THEN conjunct2, THEN conjunct2, THEN conjunct1]
    by (simp add: sample_page_def)
  then have b: "map_option (map selected) (expense_body (renderFinanceTables nat_platform ?snap ?st))
          = Some [False, True]"
    by (simp add: renderRows_def transaction_row_def sample_transaction_def)
  from a b show ?thesis by simp
qed

theorem renderRows_empty_placeholder_witness:
  "income_body (renderFinanceTables nat_platform
      \<lparr>income = [], expenses = [sample_transaction ''tx-1'']\<rparr> sample_page)
   = Some [\<lparr>row_transaction_id = None, cells = [''No entries recorded yet.''],
            duplicate_button = None, selected = False\<rparr>]"
  using renderRows_empty_placeholder [of nat_platform None sample_page
          "\<lparr>income = [], expenses = [sample_transaction ''tx-1'']\<rparr>",
          THEN conjunct2, THEN conjunct2, THEN conjunct2, THEN conjunct2, THEN conjunct2,
          THEN conjunct2, THEN conjunct1]
  by (simp add: sample_page_def empty_row_def)

theorem findFinanceTransaction_first_or_null_witness:
  "duplicate_button_click nat_platform ''tx-9''
     (sample_page\<lparr>finance_snapshot :=
        \<lparr>income = [sample_transaction ''tx-1''], expenses = [sample_transaction ''tx-2'']\<rparr>\<rparr>)
   = sample_page\<lparr>finance_snapshot :=
        \<lparr>income = [sample_transaction ''tx-1''], expenses = [sample_transaction ''tx-2'']\<rparr>\<rparr>"
  using findFinanceTransaction_first_or_null
          [of "sample_page\<lparr>finance_snapshot :=
                 \<lparr>income = [sample_transaction ''tx-1''], expenses = [sample_transaction ''tx-2'']\<rparr>\<rparr>"
              "''tx-9''" _ nat_platform, THEN conjunct2, THEN conjunct2]
  by (simp add: sample_transaction_def)

end
